theory Spec2Isabelle
  imports Complex_Main "HOL-Library.Word"
begin

section \<open>stlcut: cutting a triangle mesh by a plane\<close>

text \<open>
  A shallow embedding of \<^verbatim>\<open>stlcut.cpp\<close>. The coordinates of the program are finite
  \<^verbatim>\<open>float\<close> values, modelled by real numbers. The \<^verbatim>\<open>float\<close> arithmetic of the geometry
  (intersections, projections, the basis) is exact in the model. The classification of a
  vertex, \<^verbatim>\<open>stl_plane::position\<close>, decides by the sign of a sum that the program evaluates
  in \<^verbatim>\<open>double\<close>; there the rounding of every operation is modelled, since it decides
  which of the three positions is returned. A division whose divisor is zero has the
  value \<open>0\<close> in HOL, where the program gets an infinity or a NaN; no theorem below relies on
  the value of such a division, except to say that it is not what the program needs.

  The record fields of the source are called \<^verbatim>\<open>x\<close>, \<^verbatim>\<open>y\<close>, \<^verbatim>\<open>z\<close> in several structs; they are
  prefixed here (\<open>vx\<close> for a vertex, \<open>px\<close> for the plane, \<open>pair_x\<close> for an edge) so that they do
  not clash with each other and with variables.
\<close>

subsection \<open>Data model\<close>

text \<open>
  \<^verbatim>\<open>enum stl_position { above, on, below }\<close>. From here on \<open>above\<close> is this constructor;
  the library's constant of that name is not used.
\<close>

datatype stl_position = above | on | below

text \<open>\<^verbatim>\<open>stl_vertex\<close> of admesh: three floats. \<^verbatim>\<open>typedef stl_vertex stl_vector\<close>.\<close>

record stl_vertex =
  vx :: real
  vy :: real
  vz :: real

type_synonym stl_vector = stl_vertex

text \<open>
  \<^verbatim>\<open>stl_facet\<close> of admesh: a normal, the array \<^verbatim>\<open>vertex[3]\<close> and the two bytes \<^verbatim>\<open>extra[2]\<close>.
  The array is three fields, read by index through \<open>vertex\<close>; the program only ever
  indexes it with \<^verbatim>\<open>i\<close> and \<^verbatim>\<open>(i+k)%3\<close> for \<^verbatim>\<open>i < 3\<close>.
\<close>

record stl_facet =
  normal :: stl_vector
  vertex0 :: stl_vertex
  vertex1 :: stl_vertex
  vertex2 :: stl_vertex
  extra0 :: "8 word"
  extra1 :: "8 word"

definition vertex :: "stl_facet \<Rightarrow> nat \<Rightarrow> stl_vertex" where
  "vertex f i = (if i = 0 then vertex0 f else if i = 1 then vertex1 f else vertex2 f)"

text \<open>\<^verbatim>\<open>struct stl_plane\<close>: the equation \<^verbatim>\<open>x, y, z, d\<close> and the basis \<^verbatim>\<open>a, b\<close>.\<close>

record stl_plane =
  px :: real
  py :: real
  pz :: real
  pd :: real
  pa :: stl_vector
  pb :: stl_vector

text \<open>\<^verbatim>\<open>struct stl_vertex_pair\<close>: a directed edge.\<close>

record stl_vertex_pair =
  pair_x :: stl_vertex
  pair_y :: stl_vertex

subsection \<open>Vectors\<close>

text \<open>\<^verbatim>\<open>normalize\<close> (here \<open>normalize_vec\<close>) and \<^verbatim>\<open>dot\<close>.\<close>

definition normalize_vec :: "stl_vector \<Rightarrow> stl_vector" where
  "normalize_vec v =
     (let sz = sqrt (vx v * vx v + vy v * vy v + vz v * vz v)
      in v\<lparr>vx := vx v / sz, vy := vy v / sz, vz := vz v / sz\<rparr>)"

definition dot :: "stl_vector \<Rightarrow> stl_vector \<Rightarrow> real" where
  "dot a b = vx a * vx b + vy a * vy b + vz a * vz b"

subsection \<open>The plane\<close>

text \<open>
  The constructor \<^verbatim>\<open>stl_plane::stl_plane\<close> is \<open>new_stl_plane\<close>, since \<open>stl_plane\<close> names the
  record. The general branch of the constructor: \<open>basis_a\<close> is \<^verbatim>\<open>a\<close> after its normalisation,
  \<open>basis_b_raw\<close> is \<^verbatim>\<open>b\<close> after the projection on \<^verbatim>\<open>a\<close> has been subtracted and before
  \<^verbatim>\<open>b = normalize(b)\<close>.
\<close>

definition basis_a :: "real \<Rightarrow> real \<Rightarrow> stl_vector" where
  "basis_a x y = normalize_vec \<lparr>vx = y, vy = - x, vz = 0\<rparr>"

definition basis_b_raw :: "real \<Rightarrow> real \<Rightarrow> real \<Rightarrow> stl_vector" where
  "basis_b_raw x y z =
     (let a = basis_a x y;
          b = \<lparr>vx = 0, vy = z, vz = - y\<rparr>;
          r = dot a b
      in \<lparr>vx = vx b - vx a * r, vy = vy b - vy a * r, vz = vz b - vz a * r\<rparr>)"

definition new_stl_plane :: "real \<Rightarrow> real \<Rightarrow> real \<Rightarrow> real \<Rightarrow> stl_plane" where
  "new_stl_plane x y z d =
     (if x = 0 \<and> y = 0 then
        \<lparr>px = x, py = y, pz = z, pd = d,
         pa = \<lparr>vx = 1, vy = 0, vz = 0\<rparr>, pb = \<lparr>vx = 0, vy = 1, vz = 0\<rparr>\<rparr>
      else if y = 0 \<and> z = 0 then
        \<lparr>px = x, py = y, pz = z, pd = d,
         pa = \<lparr>vx = 0, vy = 1, vz = 0\<rparr>, pb = \<lparr>vx = 0, vy = 0, vz = 1\<rparr>\<rparr>
      else if x = 0 \<and> z = 0 then
        \<lparr>px = x, py = y, pz = z, pd = d,
         pa = \<lparr>vx = 1, vy = 0, vz = 0\<rparr>, pb = \<lparr>vx = 0, vy = 0, vz = 1\<rparr>\<rparr>
      else
        \<lparr>px = x, py = y, pz = z, pd = d,
         pa = basis_a x y, pb = normalize_vec (basis_b_raw x y z)\<rparr>)"

text \<open>
  The property that the constructor's comment \<^verbatim>\<open>// save orthonormal basis\<close> announces:
  \<open>a\<close> and \<open>b\<close> have length one, are orthogonal to each other and to the normal.
\<close>

definition plane_normal :: "stl_plane \<Rightarrow> stl_vector" where
  "plane_normal plane = \<lparr>vx = px plane, vy = py plane, vz = pz plane\<rparr>"

definition orthonormal_basis :: "stl_plane \<Rightarrow> bool" where
  "orthonormal_basis plane \<longleftrightarrow>
     dot (pa plane) (pa plane) = 1 \<and> dot (pb plane) (pb plane) = 1 \<and>
     dot (pa plane) (pb plane) = 0 \<and>
     dot (pa plane) (plane_normal plane) = 0 \<and> dot (pb plane) (plane_normal plane) = 0"

text \<open>
  The values of a \<^verbatim>\<open>double\<close>. An operation of the program on finite operands is the
  exact operation followed by \<open>to_double\<close>, the rounding to the nearest number with a
  significand of 53 bits, ties to the even significand (IEEE 754 binary64, default
  rounding). The exponent range is not modelled: the operands of \<^verbatim>\<open>position\<close> are
  \<^verbatim>\<open>float\<close> values and products of two of them, which a \<^verbatim>\<open>double\<close> cannot overflow or
  underflow on.
\<close>

datatype double = Finite real | PlusInfinity | MinusInfinity | NaN

definition round_even :: "real \<Rightarrow> int" where
  "round_even q =
     (let f = \<lfloor>q\<rfloor>; r = q - of_int f
      in if r < 1 / 2 then f else if 1 / 2 < r then f + 1 else if even f then f else f + 1)"

definition to_double :: "real \<Rightarrow> real" where
  "to_double x =
     (if x = 0 then 0
      else (let e = \<lfloor>log 2 \<bar>x\<bar>\<rfloor>;
                ulp = 2 powr of_int (e - 52)
            in of_int (round_even (x / ulp)) * ulp))"

text \<open>The comparisons \<^verbatim>\<open>result > 0\<close> and \<^verbatim>\<open>result < 0\<close>; both are false of a NaN.\<close>

definition greater_zero :: "double \<Rightarrow> bool" where
  "greater_zero result =
     (case result of Finite x \<Rightarrow> 0 < x | PlusInfinity \<Rightarrow> True | MinusInfinity \<Rightarrow> False | NaN \<Rightarrow> False)"

definition less_zero :: "double \<Rightarrow> bool" where
  "less_zero result =
     (case result of Finite x \<Rightarrow> x < 0 | PlusInfinity \<Rightarrow> False | MinusInfinity \<Rightarrow> True | NaN \<Rightarrow> False)"

text \<open>
  \<^verbatim>\<open>stl_plane::position\<close>. \<open>position_result\<close> is the value of the local \<^verbatim>\<open>result\<close>,
  \<^verbatim>\<open>(double)x*vertex.x + (double)y*vertex.y + (double)z*vertex.z + d\<close>, evaluated from left
  to right in \<^verbatim>\<open>double\<close>; \<open>position_of\<close> is the three \<^verbatim>\<open>return\<close> statements.
\<close>

definition position_result :: "stl_plane \<Rightarrow> stl_vertex \<Rightarrow> real" where
  "position_result plane v =
     to_double (to_double (to_double (to_double (px plane * vx v) + to_double (py plane * vy v))
                           + to_double (pz plane * vz v))
                + pd plane)"

definition position_of :: "double \<Rightarrow> stl_position" where
  "position_of result =
     (if greater_zero result then above else if less_zero result then below else on)"

definition position :: "stl_plane \<Rightarrow> stl_vertex \<Rightarrow> stl_position" where
  "position plane v = position_of (Finite (position_result plane v))"

text \<open>\<^verbatim>\<open>stl_plane::intersection\<close>\<close>

definition intersection :: "stl_plane \<Rightarrow> stl_vertex \<Rightarrow> stl_vertex \<Rightarrow> stl_vertex" where
  "intersection plane a b =
     (let ab = \<lparr>vx = vx b - vx a, vy = vy b - vy a, vz = vz b - vz a\<rparr>;
          t = - (vx a * px plane + vy a * py plane + vz a * pz plane + pd plane)
              / (vx ab * px plane + vy ab * py plane + vz ab * pz plane)
      in \<lparr>vx = vx a + vx ab * t, vy = vy a + vy ab * t, vz = vz a + vz ab * t\<rparr>)"

text \<open>\<^verbatim>\<open>stl_plane::to_2D\<close> and \<^verbatim>\<open>stl_plane::to_3D\<close>\<close>

definition to_2D :: "stl_plane \<Rightarrow> stl_vertex \<Rightarrow> stl_vertex \<Rightarrow> stl_vertex" where
  "to_2D plane v origin =
     (let ov = \<lparr>vx = vx v - vx origin, vy = vy v - vy origin, vz = vz v - vz origin\<rparr>
      in \<lparr>vx = dot (pa plane) ov, vy = dot (pb plane) ov, vz = 0\<rparr>)"

definition to_3D :: "stl_plane \<Rightarrow> stl_vertex \<Rightarrow> stl_vertex \<Rightarrow> stl_vertex" where
  "to_3D plane v origin =
     \<lparr>vx = vx origin + vx (pa plane) * vx v + vx (pb plane) * vy v,
      vy = vy origin + vy (pa plane) * vx v + vy (pb plane) * vy v,
      vz = vz origin + vz (pa plane) * vx v + vz (pb plane) * vy v\<rparr>"

subsection \<open>The border set\<close>

text \<open>
  \<^verbatim>\<open>stl_vertex_pair::operator<\<close> (here \<open>edge_less\<close>), the order of the \<^verbatim>\<open>std::set\<close> of
  border edges.
\<close>

definition edge_less :: "stl_vertex_pair \<Rightarrow> stl_vertex_pair \<Rightarrow> bool" where
  "edge_less p other =
     (if vx (pair_x p) = vx (pair_x other) then
        if vy (pair_x p) = vy (pair_x other) then
          if vz (pair_x p) = vz (pair_x other) then
            if vx (pair_y p) = vx (pair_y other) then
              if vy (pair_y p) = vy (pair_y other) then
                vz (pair_y p) < vz (pair_y other)
              else vy (pair_y p) < vy (pair_y other)
            else vx (pair_y p) < vx (pair_y other)
          else vz (pair_x p) < vz (pair_x other)
        else vy (pair_x p) < vy (pair_x other)
      else vx (pair_x p) < vx (pair_x other))"

text \<open>
  A \<^verbatim>\<open>std::set<stl_vertex_pair>\<close> is the list of its elements in iteration order, that is
  in increasing order. \<^verbatim>\<open>insert\<close> puts the edge at its place, and leaves the set as it is
  when it holds an equivalent edge (neither is less than the other).
\<close>

fun set_insert :: "stl_vertex_pair \<Rightarrow> stl_vertex_pair list \<Rightarrow> stl_vertex_pair list" where
  "set_insert e [] = [e]"
| "set_insert e (h # t) =
     (if edge_less e h then e # h # t
      else if edge_less h e then h # set_insert e t
      else h # t)"

subsection \<open>The facet splitter\<close>

text \<open>The two deques and the border set that \<^verbatim>\<open>separate\<close> receives by reference.\<close>

record cut_state =
  upper :: "stl_facet list"
  lower :: "stl_facet list"
  border :: "stl_vertex_pair list"

definition semifacet :: "stl_facet \<Rightarrow> stl_vertex \<Rightarrow> stl_vertex \<Rightarrow> stl_vertex \<Rightarrow> stl_facet" where
  "semifacet original a b c =
     \<lparr>normal = normal original, vertex0 = a, vertex1 = b, vertex2 = c,
      extra0 = extra0 original, extra1 = extra1 original\<rparr>"

text \<open>
  \<^verbatim>\<open>simple_cut\<close> and \<^verbatim>\<open>complex_cut\<close> take the deques \<^verbatim>\<open>first\<close> and \<^verbatim>\<open>second\<close> and the border
  by reference; the model returns the three of them.
\<close>

definition simple_cut ::
  "stl_vertex \<Rightarrow> stl_vertex \<Rightarrow> stl_vertex \<Rightarrow> stl_facet \<Rightarrow> stl_plane \<Rightarrow>
   stl_facet list \<Rightarrow> stl_facet list \<Rightarrow> stl_vertex_pair list \<Rightarrow>
   stl_facet list \<times> stl_facet list \<times> stl_vertex_pair list" where
  "simple_cut zero one two facet plane first second bord =
     (let middle = intersection plane one two
      in (first @ [semifacet facet middle zero one],
          second @ [semifacet facet middle two zero],
          set_insert \<lparr>pair_x = one, pair_y = middle\<rparr> bord))"

definition complex_cut ::
  "stl_vertex \<Rightarrow> stl_vertex \<Rightarrow> stl_vertex \<Rightarrow> stl_facet \<Rightarrow> stl_plane \<Rightarrow>
   stl_facet list \<Rightarrow> stl_facet list \<Rightarrow> stl_vertex_pair list \<Rightarrow>
   stl_facet list \<times> stl_facet list \<times> stl_vertex_pair list" where
  "complex_cut zero one two facet plane first second bord =
     (let one_middle = intersection plane zero one;
          two_middle = intersection plane zero two
      in (first @ [semifacet facet zero one_middle two_middle],
          second @ [semifacet facet one_middle one two] @ [semifacet facet one_middle two two_middle],
          set_insert \<lparr>pair_x = one_middle, pair_y = two_middle\<rparr> bord))"

text \<open>
  A loop \<^verbatim>\<open>for (i = 0; i < 3; i++) if (pos[i] == p) { ...; break or return; }\<close> acts on the
  first index whose position is \<open>p\<close>, if there is one.
\<close>

fun first_index :: "stl_position \<Rightarrow> stl_position list \<Rightarrow> nat \<Rightarrow> nat option" where
  "first_index p [] i = None"
| "first_index p (q # qs) i = (if q = p then Some i else first_index p qs (Suc i))"

text \<open>The body of the loop of the branch \<^verbatim>\<open>ons == 2\<close>, which has no \<^verbatim>\<open>break\<close>.\<close>

definition two_on_step :: "stl_facet \<Rightarrow> stl_position list \<Rightarrow> cut_state \<Rightarrow> nat \<Rightarrow> cut_state" where
  "two_on_step facet pos st i =
     (if pos ! i = above then
        st\<lparr>upper := upper st @ [facet],
           border := set_insert \<lparr>pair_x = vertex facet ((i + 1) mod 3),
                                  pair_y = vertex facet ((i + 2) mod 3)\<rparr> (border st)\<rparr>
      else if pos ! i = below then
        st\<lparr>lower := lower st @ [facet],
           border := set_insert \<lparr>pair_x = vertex facet ((i + 2) mod 3),
                                  pair_y = vertex facet ((i + 1) mod 3)\<rparr> (border st)\<rparr>
      else st)"

text \<open>
  \<^verbatim>\<open>separate\<close>. In the branch \<^verbatim>\<open>ons == 1\<close> the locals \<^verbatim>\<open>zero\<close>, \<^verbatim>\<open>one\<close>, \<^verbatim>\<open>onepos\<close>, \<^verbatim>\<open>two\<close> are
  set by the loop that looks for the vertex on the plane; had the loop found none they
  would be uninitialised, which cannot happen there (\<open>first_index_on_exists\<close> below), and
  the model leaves the state as it is. The function also ends without a change when the
  last loop finds no vertex below.
\<close>

definition separate :: "stl_facet \<Rightarrow> stl_plane \<Rightarrow> cut_state \<Rightarrow> cut_state" where
  "separate facet plane st =
     (let pos = map (\<lambda>i. position plane (vertex facet i)) [0, 1, 2];
          aboves = length (filter (\<lambda>p. p = above) pos);
          belows = length (filter (\<lambda>p. p \<noteq> above \<and> p = below) pos);
          ons = length (filter (\<lambda>p. p \<noteq> above \<and> p \<noteq> below) pos)
      in if aboves = 3 then st\<lparr>upper := upper st @ [facet]\<rparr>
         else if belows = 3 then st\<lparr>lower := lower st @ [facet]\<rparr>
         else if ons = 3 then st
         else if ons = 2 then foldl (two_on_step facet pos) st [0, 1, 2]
         else if ons = 1 then
           (let found = first_index on pos 0
            in if aboves = 2 then st\<lparr>upper := upper st @ [facet]\<rparr>
               else if belows = 2 then st\<lparr>lower := lower st @ [facet]\<rparr>
               else (case found of
                       None \<Rightarrow> st
                     | Some i \<Rightarrow>
                         (let zero = vertex facet i;
                              one = vertex facet ((i + 1) mod 3);
                              onepos = pos ! ((i + 1) mod 3);
                              two = vertex facet ((i + 2) mod 3)
                          in if onepos = above then
                               (case simple_cut zero one two facet plane (upper st) (lower st) (border st) of
                                  (first, second, bord) \<Rightarrow>
                                    st\<lparr>upper := first, lower := second, border := bord\<rparr>)
                             else
                               (case simple_cut zero one two facet plane (lower st) (upper st) (border st) of
                                  (first, second, bord) \<Rightarrow>
                                    st\<lparr>upper := second, lower := first, border := bord\<rparr>))))
         else
           (case (if aboves = 1 then first_index above pos 0 else None) of
              Some i \<Rightarrow>
                (case complex_cut (vertex facet i) (vertex facet ((i + 1) mod 3))
                        (vertex facet ((i + 2) mod 3)) facet plane (upper st) (lower st) (border st) of
                   (first, second, bord) \<Rightarrow> st\<lparr>upper := first, lower := second, border := bord\<rparr>)
            | None \<Rightarrow>
                (case first_index below pos 0 of
                   Some i \<Rightarrow>
                     (case complex_cut (vertex facet i) (vertex facet ((i + 1) mod 3))
                             (vertex facet ((i + 2) mod 3)) facet plane (lower st) (upper st) (border st) of
                        (first, second, bord) \<Rightarrow> st\<lparr>upper := second, lower := first, border := bord\<rparr>)
                 | None \<Rightarrow> st)))"

text \<open>The loop of \<^verbatim>\<open>main\<close> that separates all facets.\<close>

definition separate_all :: "stl_facet list \<Rightarrow> stl_plane \<Rightarrow> cut_state \<Rightarrow> cut_state" where
  "separate_all facets plane st = foldl (\<lambda>s facet. separate facet plane s) st facets"

subsection \<open>The border stitcher\<close>

text \<open>
  Modelled from the spec: the macros \<^verbatim>\<open>ABS\<close> and \<^verbatim>\<open>STL_MIN\<close> come from
  \<^verbatim>\<open>admesh/stl.h\<close>, which is not part of the sources; the spec calls their results
  a length and a minimum. They are the absolute value and the smaller of two numbers.
\<close>

definition ABS :: "real \<Rightarrow> real" where
  "ABS X = (if X < 0 then - X else X)"

definition STL_MIN :: "real \<Rightarrow> real \<Rightarrow> real" where
  "STL_MIN A B = (if A < B then A else B)"

text \<open>\<^verbatim>\<open>is_same\<close>: vertex comparison with tolerance, on the first two coordinates.\<close>

definition is_same :: "stl_vertex \<Rightarrow> stl_vertex \<Rightarrow> real \<Rightarrow> bool" where
  "is_same a b tolerance \<longleftrightarrow> ABS (vx a - vx b) < tolerance \<and> ABS (vy a - vy b) < tolerance"

text \<open>
  Reading the first element of a container: \<^verbatim>\<open>*border.begin()\<close> and \<^verbatim>\<open>border2d.front()\<close>.
  On an empty container the program's behaviour is undefined; the model has no value there.
\<close>

definition begin_deref :: "'a list \<Rightarrow> 'a option" where
  "begin_deref s = (case s of [] \<Rightarrow> None | e # _ \<Rightarrow> Some e)"

definition front :: "'a list \<Rightarrow> 'a option" where
  "front s = (case s of [] \<Rightarrow> None | e # _ \<Rightarrow> Some e)"

text \<open>The length that the tolerance is taken from: \<^verbatim>\<open>ABS(x.x-y.x)+ABS(x.y-y.y)\<close>.\<close>

definition edge_length :: "stl_vertex \<Rightarrow> stl_vertex \<Rightarrow> real" where
  "edge_length x y = ABS (vx x - vx y) + ABS (vy x - vy y)"

text \<open>
  The loop over the border set that fills \<^verbatim>\<open>border2d\<close> and computes the tolerance. The
  local \<^verbatim>\<open>tolerance\<close> is not initialised; it is \<open>None\<close> until the first iteration
  (\<^verbatim>\<open>i == border.begin()\<close>) has assigned it.
\<close>

fun project_border ::
  "stl_plane \<Rightarrow> stl_vertex \<Rightarrow> stl_vertex_pair list \<Rightarrow>
   stl_vertex_pair list \<times> real option \<Rightarrow> stl_vertex_pair list \<times> real option" where
  "project_border plane origin [] acc = acc"
| "project_border plane origin (i # rest) (border2d, tolerance) =
     (let x = to_2D plane (pair_x i) origin;
          y = to_2D plane (pair_y i) origin
      in project_border plane origin rest
           (border2d @ [\<lparr>pair_x = x, pair_y = y\<rparr>],
            case tolerance of
              None \<Rightarrow> Some (edge_length x y)
            | Some t \<Rightarrow> Some (STL_MIN t (edge_length x y))))"

text \<open>
  One pass of the \<^verbatim>\<open>for\<close> loop inside \<^verbatim>\<open>while (found)\<close>: the first edge of \<^verbatim>\<open>border2d\<close> one
  of whose ends is the same as the back of the polyline is erased and its other end is
  pushed back. \<open>None\<close> is \<^verbatim>\<open>found == false\<close>.
\<close>

fun scan ::
  "real \<Rightarrow> stl_vertex list \<Rightarrow> stl_vertex_pair list \<Rightarrow>
   (stl_vertex list \<times> stl_vertex_pair list) option" where
  "scan tolerance polyline [] = None"
| "scan tolerance polyline (i # rest) =
     (if is_same (last polyline) (pair_x i) tolerance then Some (polyline @ [pair_y i], rest)
      else if is_same (last polyline) (pair_y i) tolerance then Some (polyline @ [pair_x i], rest)
      else (case scan tolerance polyline rest of
              None \<Rightarrow> None
            | Some (polyline', rest') \<Rightarrow> Some (polyline', i # rest')))"

text \<open>The loop \<^verbatim>\<open>while (found)\<close>.\<close>

function stitch_loop ::
  "real \<Rightarrow> stl_vertex list \<Rightarrow> stl_vertex_pair list \<Rightarrow> stl_vertex list \<times> stl_vertex_pair list" where
  "stitch_loop tolerance polyline border2d =
     (case scan tolerance polyline border2d of
        None \<Rightarrow> (polyline, border2d)
      | Some (polyline', border2d') \<Rightarrow> stitch_loop tolerance polyline' border2d')"
  by pat_completeness auto
termination
proof (relation "measure (\<lambda>(tolerance, polyline, border2d). length border2d)")
  show "wf (measure (\<lambda>(tolerance, polyline, border2d). length border2d))"
    by simp
next
  fix tolerance :: real and polyline :: "stl_vertex list" and border2d :: "stl_vertex_pair list"
    and x2 polyline' border2d'
  assume found: "scan tolerance polyline border2d = Some x2" and "(polyline', border2d') = x2"
  have "scan tolerance polyline es = Some (p, r) \<Longrightarrow> length r < length es" for es p r
    by (induction es arbitrary: p r) (auto split: if_splits option.splits)
  with found \<open>(polyline', border2d') = x2\<close>
  show "((tolerance, polyline', border2d'), (tolerance, polyline, border2d))
        \<in> measure (\<lambda>(tolerance, polyline, border2d). length border2d)"
    by auto
qed

datatype stitch_error = Empty_border | Uninitialised_tolerance | Empty_border2d

record stitched =
  the_origin :: stl_vertex
  the_tolerance :: real
  the_polyline :: "stl_vertex list"

text \<open>
  The stitching stage of \<^verbatim>\<open>main\<close>, from the choice of the origin to the polyline handed to
  the triangulation.
\<close>

definition stitch :: "stl_plane \<Rightarrow> stl_vertex_pair list \<Rightarrow> stitch_error + stitched" where
  "stitch plane bord =
     (case begin_deref bord of
        None \<Rightarrow> Inl Empty_border
      | Some first \<Rightarrow>
          (let origin = pair_x first
           in case project_border plane origin bord ([], None) of
                (border2d, None) \<Rightarrow> Inl Uninitialised_tolerance
              | (border2d, Some t) \<Rightarrow>
                  (let tolerance = t / 4
                   in case front border2d of
                        None \<Rightarrow> Inl Empty_border2d
                      | Some pair \<Rightarrow>
                          (case stitch_loop tolerance [pair_x pair, pair_y pair] (tl border2d) of
                             (polyline, border2d') \<Rightarrow>
                               Inr \<lparr>the_origin = origin, the_tolerance = tolerance,
                                    the_polyline = (if is_same (last polyline) (hd polyline) tolerance
                                                then butlast polyline else polyline)\<rparr>))))"


definition manhattan_length :: "stl_vertex \<Rightarrow> stl_vertex \<Rightarrow> real" where
  "manhattan_length x y = \<bar>vx x - vx y\<bar> + \<bar>vy x - vy y\<bar>"

definition min_length ::
  "(stl_vertex \<Rightarrow> stl_vertex \<Rightarrow> real) \<Rightarrow> stl_plane \<Rightarrow> stl_vertex \<Rightarrow> stl_vertex_pair list \<Rightarrow> real" where
  "min_length len plane origin bord =
     Min ((\<lambda>i. len (to_2D plane (pair_x i) origin) (to_2D plane (pair_y i) origin)) ` set bord)"

subsection \<open>The cap builder\<close>

text \<open>\<^verbatim>\<open>p2t::Point\<close> has the coordinates \<^verbatim>\<open>x\<close> and \<^verbatim>\<open>y\<close>; a \<^verbatim>\<open>p2t::Triangle\<close> has three points.\<close>

record p2t_point =
  ptx :: real
  pty :: real

type_synonym p2t_triangle = "p2t_point \<times> p2t_point \<times> p2t_point"

definition GetPoint :: "p2t_triangle \<Rightarrow> nat \<Rightarrow> p2t_point" where
  "GetPoint t j = (case t of (p0, p1, p2) \<Rightarrow> if j = 0 then p0 else if j = 1 then p1 else p2)"

definition set_vertex :: "stl_facet \<Rightarrow> nat \<Rightarrow> stl_vertex \<Rightarrow> stl_facet" where
  "set_vertex f j v =
     (if j = 0 then f\<lparr>vertex0 := v\<rparr> else if j = 1 then f\<lparr>vertex1 := v\<rparr> else f\<lparr>vertex2 := v\<rparr>)"

text \<open>
  The body of the loop over \<^verbatim>\<open>j\<close>, on the locals \<^verbatim>\<open>vertex\<close> (here \<open>vtx\<close>) and \<^verbatim>\<open>facet\<close>. Only \<^verbatim>\<open>vertex.x\<close> and
  \<^verbatim>\<open>vertex.y\<close> are assigned before \<^verbatim>\<open>to_3D\<close>; \<^verbatim>\<open>vertex.z\<close> keeps what it had.
\<close>

definition cap_vertex ::
  "stl_plane \<Rightarrow> stl_vertex \<Rightarrow> p2t_triangle \<Rightarrow> stl_vertex \<times> stl_facet \<Rightarrow> nat \<Rightarrow> stl_vertex \<times> stl_facet" where
  "cap_vertex plane origin t loc j =
     (case loc of (vtx, facet) \<Rightarrow>
        (let p = GetPoint t j;
             vtx = vtx\<lparr>vx := ptx p, vy := pty p\<rparr>;
             vtx = to_3D plane vtx origin
         in (vtx, set_vertex facet j vtx)))"

text \<open>
  The body of the loop over the triangles. The locals \<^verbatim>\<open>vertex\<close> and \<^verbatim>\<open>facet\<close> are declared
  without a value; what they hold then is the argument \<open>uninit\<close>.
\<close>

definition cap_triangle ::
  "stl_plane \<Rightarrow> stl_vertex \<Rightarrow> stl_vertex \<times> stl_facet \<Rightarrow> cut_state \<Rightarrow> p2t_triangle \<Rightarrow> cut_state" where
  "cap_triangle plane origin uninit st t =
     (case foldl (cap_vertex plane origin t) uninit [0, 1, 2] of (vtx, facet) \<Rightarrow>
        (let facet = facet\<lparr>normal := (normal facet)\<lparr>vx := px plane, vy := py plane, vz := pz plane\<rparr>\<rparr>;
             st = st\<lparr>lower := lower st @ [facet]\<rparr>;
             facet = facet\<lparr>normal := (normal facet)\<lparr>vx := - px plane, vy := - py plane, vz := - pz plane\<rparr>\<rparr>;
             vtx = vertex1 facet;
             facet = facet\<lparr>vertex1 := vertex2 facet\<rparr>;
             facet = facet\<lparr>vertex2 := vtx\<rparr>
         in st\<lparr>upper := upper st @ [facet]\<rparr>))"

definition cap_builder ::
  "stl_plane \<Rightarrow> stl_vertex \<Rightarrow> stl_vertex \<times> stl_facet \<Rightarrow> p2t_triangle list \<Rightarrow> cut_state \<Rightarrow> cut_state" where
  "cap_builder plane origin uninit triangles st = foldl (cap_triangle plane origin uninit) st triangles"

text \<open>
  The two cap facets of a triangle, in the words of the cap builder's description: the
  corners mapped by \<open>to_3D\<close>, the plane normal for the lower half, and for the upper half
  the negated normal with the second and the third corner exchanged. \<open>extra\<close> stands for
  the two bytes of the facet, which the program leaves without a value.
\<close>

definition point_vertex :: "p2t_point \<Rightarrow> stl_vertex" where
  "point_vertex p = \<lparr>vx = ptx p, vy = pty p, vz = 0\<rparr>"

definition lower_cap :: "stl_plane \<Rightarrow> stl_vertex \<Rightarrow> 8 word \<times> 8 word \<Rightarrow> p2t_triangle \<Rightarrow> stl_facet" where
  "lower_cap plane origin extra t =
     (case t of (p0, p1, p2) \<Rightarrow>
        \<lparr>normal = \<lparr>vx = px plane, vy = py plane, vz = pz plane\<rparr>,
         vertex0 = to_3D plane (point_vertex p0) origin,
         vertex1 = to_3D plane (point_vertex p1) origin,
         vertex2 = to_3D plane (point_vertex p2) origin,
         extra0 = fst extra, extra1 = snd extra\<rparr>)"

definition upper_cap :: "stl_plane \<Rightarrow> stl_vertex \<Rightarrow> 8 word \<times> 8 word \<Rightarrow> p2t_triangle \<Rightarrow> stl_facet" where
  "upper_cap plane origin extra t =
     (case t of (p0, p1, p2) \<Rightarrow>
        \<lparr>normal = \<lparr>vx = - px plane, vy = - py plane, vz = - pz plane\<rparr>,
         vertex0 = to_3D plane (point_vertex p0) origin,
         vertex1 = to_3D plane (point_vertex p2) origin,
         vertex2 = to_3D plane (point_vertex p1) origin,
         extra0 = fst extra, extra1 = snd extra\<rparr>)"

subsection \<open>The whole cut\<close>

text \<open>
  \<^verbatim>\<open>main\<close> (here \<open>cut_mesh\<close>) from the construction of the plane to the last cap facet. The triangulation
  of poly2tri is the argument \<open>cdt\<close>: it takes the points of the polygon and returns the
  triangles.
\<close>

text \<open>The deques and the border set as \<^verbatim>\<open>main\<close> declares them: empty.\<close>

definition empty_cut :: cut_state where
  "empty_cut = \<lparr>upper = [], lower = [], border = []\<rparr>"

definition main_plane :: stl_plane where
  "main_plane = new_stl_plane 0 0 1 0"

definition cut_mesh ::
  "(p2t_point list \<Rightarrow> p2t_triangle list) \<Rightarrow> stl_vertex \<times> stl_facet \<Rightarrow> stl_facet list \<Rightarrow>
   stitch_error + cut_state" where
  "cut_mesh cdt uninit facets =
     (let plane = main_plane;
          st = separate_all facets plane empty_cut
      in case stitch plane (border st) of
           Inl e \<Rightarrow> Inl e
         | Inr s \<Rightarrow>
             (let polygon = map (\<lambda>i. \<lparr>ptx = vx i, pty = vy i\<rparr>) (the_polyline s);
                  triangles = cdt polygon
              in Inr (cap_builder plane (the_origin s) uninit triangles st)))"

subsection \<open>Example data\<close>

text \<open>Concrete vertices and facets, for the instances below.\<close>

definition xyz :: "real \<Rightarrow> real \<Rightarrow> real \<Rightarrow> stl_vertex" where
  "xyz x y z = \<lparr>vx = x, vy = y, vz = z\<rparr>"

definition example_facet :: "stl_vertex \<Rightarrow> stl_vertex \<Rightarrow> stl_vertex \<Rightarrow> stl_facet" where
  "example_facet a b c =
     \<lparr>normal = xyz 0 0 1, vertex0 = a, vertex1 = b, vertex2 = c, extra0 = 0, extra1 = 0\<rparr>"

section \<open>Theorems\<close>

subsection \<open>The plane\<close>

lemma main_plane_simps:
  "px main_plane = 0" "py main_plane = 0" "pz main_plane = 1" "pd main_plane = 0"
  "pa main_plane = xyz 1 0 0" "pb main_plane = xyz 0 1 0"
  by (simp_all add: main_plane_def new_stl_plane_def xyz_def)

lemma round_even_bounds: "\<lfloor>q\<rfloor> \<le> round_even q \<and> round_even q \<le> \<lfloor>q\<rfloor> + 1"
  by (simp add: round_even_def Let_def)

lemma round_even_of_int: "round_even (of_int n) = n"
  by (simp add: round_even_def)

lemma to_double_zero: "to_double 0 = 0"
  by (simp add: to_double_def)

lemma to_double_eval:
  assumes "x \<noteq> 0" and "2 powr of_int e \<le> \<bar>x\<bar>" and "\<bar>x\<bar> < 2 powr of_int (e + 1)"
  shows "to_double x = of_int (round_even (x / 2 powr of_int (e - 52))) * 2 powr of_int (e - 52)"
proof -
  from assms(1) have "0 < \<bar>x\<bar>" by simp
  then have "\<lfloor>log 2 \<bar>x\<bar>\<rfloor> = e"
    using assms(2,3) floor_log_eq_powr_iff [of "\<bar>x\<bar>" 2 e] by simp
  with assms(1) show ?thesis
    by (simp add: to_double_def Let_def)
qed

lemma scaled_magnitude:
  assumes "x \<noteq> 0"
  shows "1 \<le> \<bar>x\<bar> / 2 powr of_int (\<lfloor>log 2 \<bar>x\<bar>\<rfloor> - 52)"
proof -
  define e where "e = \<lfloor>log 2 \<bar>x\<bar>\<rfloor>"
  from assms have pos: "0 < \<bar>x\<bar>" by simp
  have "2 powr of_int e \<le> \<bar>x\<bar>"
    using floor_log_eq_powr_iff [of "\<bar>x\<bar>" 2 e] pos by (simp add: e_def)
  moreover have "2 powr of_int (e - 52) \<le> (2::real) powr of_int e"
    by (simp add: powr_mono)
  ultimately have "2 powr of_int (e - 52) \<le> \<bar>x\<bar>" by linarith
  then show ?thesis
    unfolding e_def by (simp add: pos_le_divide_eq)
qed

lemma to_double_pos:
  assumes "0 < x"
  shows "0 < to_double x"
proof -
  define u :: real where "u = 2 powr of_int (\<lfloor>log 2 \<bar>x\<bar>\<rfloor> - 52)"
  have u: "0 < u" by (simp add: u_def)
  from assms scaled_magnitude [of x] have "1 \<le> x / u"
    by (simp add: u_def)
  then have "1 \<le> \<lfloor>x / u\<rfloor>" by linarith
  with round_even_bounds [of "x / u"] have "0 < round_even (x / u)" by linarith
  with u have "0 < of_int (round_even (x / u)) * u" by simp
  with assms show ?thesis
    by (simp add: to_double_def Let_def u_def)
qed

lemma to_double_neg:
  assumes "x < 0"
  shows "to_double x < 0"
proof -
  define u :: real where "u = 2 powr of_int (\<lfloor>log 2 \<bar>x\<bar>\<rfloor> - 52)"
  have u: "0 < u" by (simp add: u_def)
  from assms scaled_magnitude [of x] have "1 \<le> - x / u"
    by (simp add: u_def)
  then have "x / u \<le> - 1" by simp
  then have "\<lfloor>x / u\<rfloor> \<le> - 1" by linarith
  moreover have "x / u < 0" using assms u by (simp add: divide_neg_pos)
  ultimately have "round_even (x / u) < 0 \<or> (\<lfloor>x / u\<rfloor> = - 1 \<and> round_even (x / u) = 0)"
    using round_even_bounds [of "x / u"] by linarith
  moreover have "round_even (x / u) \<noteq> 0" if "\<lfloor>x / u\<rfloor> = - 1"
  proof -
    from that \<open>x / u \<le> - 1\<close> have "x / u = - 1" by linarith
    then show ?thesis using round_even_of_int [of "- 1"] by simp
  qed
  ultimately have "round_even (x / u) < 0" by blast
  with u have "of_int (round_even (x / u)) * u < 0"
    by (simp add: mult_neg_pos)
  with assms show ?thesis
    by (simp add: to_double_def Let_def u_def)
qed

lemma to_double_sign:
  "(0 < to_double x \<longleftrightarrow> 0 < x) \<and> (to_double x < 0 \<longleftrightarrow> x < 0) \<and> (to_double x = 0 \<longleftrightarrow> x = 0)"
  using to_double_pos [of x] to_double_neg [of x] to_double_zero
  by (cases "x = 0"; cases "0 < x") (auto simp: not_less)

lemma to_double_1: "to_double 1 = 1"
  using to_double_eval [of 1 0] by (simp add: powr_minus round_even_def)

lemma to_double_m1: "to_double (- 1) = - 1"
  using to_double_eval [of "- 1" 0] by (simp add: powr_minus round_even_def)

lemma to_double_tiny: "to_double (1 / 2 ^ 60) = 1 / 2 ^ 60"
  using to_double_eval [of "1 / 2 ^ 60" "- 60"] 
  by (simp add: powr_minus round_even_def powr_numeral)

lemma to_double_absorb: "to_double (1 + 1 / 2 ^ 60) = 1"
  using to_double_eval [of "1 + 1 / 2 ^ 60" 0]
  by (simp add: powr_minus round_even_def powr_numeral)

lemma new_stl_plane_normal:
  "px (new_stl_plane x y z d) = x" "py (new_stl_plane x y z d) = y"
  "pz (new_stl_plane x y z d) = z" "pd (new_stl_plane x y z d) = d"
  by (simp_all add: new_stl_plane_def)

lemma position_main_plane:
  "position main_plane v = (if 0 < vz v then above else if vz v < 0 then below else on)"
  by (simp add: position_def position_of_def greater_zero_def less_zero_def position_result_def
      main_plane_simps to_double_zero to_double_sign)

text \<open>
  C1. The claim is that the position is \<open>above\<close>, \<open>below\<close> or \<open>on\<close> exactly when
  \<open>normal \<cdot> v + d\<close> is positive, negative or zero. The program compares the sum as it was
  computed in \<^verbatim>\<open>double\<close>. For the plane \<open>(1, 1, 1, 0)\<close> and the vertex \<open>(1, 2\<^sup>-\<^sup>6\<^sup>0, -1)\<close> the
  first addition \<open>1 + 2\<^sup>-\<^sup>6\<^sup>0\<close> is rounded to \<open>1\<close>, the second gives \<open>0\<close>, and the position is
  \<open>on\<close>, although \<open>normal \<cdot> v + d = 2\<^sup>-\<^sup>6\<^sup>0\<close> is positive.
\<close>

theorem position_rounding_counterexample:
  "position (new_stl_plane 1 1 1 0) \<lparr>vx = 1, vy = 1 / 2 ^ 60, vz = - 1\<rparr> = on \<and>
   (0::real) < 1 * 1 + 1 * (1 / 2 ^ 60) + 1 * (- 1) + 0"
proof -
  have "to_double (to_double (to_double (to_double 1 + to_double (1 / 2 ^ 60)) + to_double (- 1)) + 0)
        = 0"
    unfolding to_double_1 to_double_tiny to_double_absorb to_double_m1
    by (simp add: to_double_zero)
  then have "position_result (new_stl_plane 1 1 1 0) \<lparr>vx = 1, vy = 1 / 2 ^ 60, vz = - 1\<rparr> = 0"
    by (simp add: position_result_def new_stl_plane_normal)
  then show ?thesis
    by (simp add: position_def position_of_def greater_zero_def less_zero_def)
qed

text \<open>
  C1, as amended. For a plane and a vertex with finite coordinates, the position is
  \<open>above\<close> exactly when the sum \<open>normal \<cdot> v + d\<close> as computed in \<^verbatim>\<open>double\<close>, every product and
  every addition rounded, is positive, \<open>below\<close> exactly when it is negative, and \<open>on\<close>
  exactly when it is zero; no tolerance takes part. The comparison itself answers \<open>on\<close>
  for every result that is neither greater nor less than zero: zero and NaN. For the plane
  of \<^verbatim>\<open>main\<close>, \<open>(0, 0, 1, 0)\<close>, the rounding does not show: the position is the sign of
  \<open>v.z\<close>.
\<close>

theorem position_sign_of_double_sum:
  "(position plane v = above \<longleftrightarrow> 0 < position_result plane v) \<and>
   (position plane v = below \<longleftrightarrow> position_result plane v < 0) \<and>
   (position plane v = on \<longleftrightarrow> position_result plane v = 0) \<and>
   (position_of result = on \<longleftrightarrow> result = Finite 0 \<or> result = NaN) \<and>
   (position main_plane v = above \<longleftrightarrow> 0 < vz v) \<and>
   (position main_plane v = below \<longleftrightarrow> vz v < 0) \<and>
   (position main_plane v = on \<longleftrightarrow> vz v = 0)"
proof -
  have "(position plane v = above \<longleftrightarrow> 0 < position_result plane v) \<and>
   (position plane v = below \<longleftrightarrow> position_result plane v < 0) \<and>
   (position plane v = on \<longleftrightarrow> position_result plane v = 0)"
    by (auto simp: position_def position_of_def greater_zero_def less_zero_def)
  moreover have "position_of result = on \<longleftrightarrow> result = Finite 0 \<or> result = NaN"
    by (cases result) (auto simp: position_of_def greater_zero_def less_zero_def)
  moreover have "(position main_plane v = above \<longleftrightarrow> 0 < vz v) \<and>
   (position main_plane v = below \<longleftrightarrow> vz v < 0) \<and>
   (position main_plane v = on \<longleftrightarrow> vz v = 0)"
    by (auto simp: position_main_plane)
  ultimately show ?thesis by blast
qed

lemma frame_det_square:
  fixes a1 a2 a3 b1 b2 b3 n1 n2 n3 :: real
  assumes "a1 * a1 + a2 * a2 + a3 * a3 = 1" "b1 * b1 + b2 * b2 + b3 * b3 = 1"
    and "a1 * b1 + a2 * b2 + a3 * b3 = 0"
    and "a1 * n1 + a2 * n2 + a3 * n3 = 0" "b1 * n1 + b2 * n2 + b3 * n3 = 0"
  shows "(a1 * (b2 * n3 - b3 * n2) - a2 * (b1 * n3 - b3 * n1) + a3 * (b1 * n2 - b2 * n1))\<^sup>2
         = n1 * n1 + n2 * n2 + n3 * n3"
proof -
  define aa where "aa = a1 * a1 + a2 * a2 + a3 * a3"
  define bb where "bb = b1 * b1 + b2 * b2 + b3 * b3"
  define nn where "nn = n1 * n1 + n2 * n2 + n3 * n3"
  define ab where "ab = a1 * b1 + a2 * b2 + a3 * b3"
  define an where "an = a1 * n1 + a2 * n2 + a3 * n3"
  define bn where "bn = b1 * n1 + b2 * n2 + b3 * n3"
  have "(a1 * (b2 * n3 - b3 * n2) - a2 * (b1 * n3 - b3 * n1) + a3 * (b1 * n2 - b2 * n1))\<^sup>2
        = aa * (bb * nn - bn * bn) - ab * (ab * nn - bn * an) + an * (ab * bn - bb * an)"
    unfolding aa_def bb_def nn_def ab_def an_def bn_def power2_eq_square by (simp add: algebra_simps)
  also have "\<dots> = nn"
    using assms unfolding aa_def bb_def nn_def ab_def an_def bn_def by simp
  finally show ?thesis unfolding nn_def .
qed

lemma frame_kernel:
  fixes a1 a2 a3 b1 b2 b3 n1 n2 n3 u1 u2 u3 :: real
  assumes "a1 * u1 + a2 * u2 + a3 * u3 = 0" "b1 * u1 + b2 * u2 + b3 * u3 = 0"
    and "n1 * u1 + n2 * u2 + n3 * u3 = 0"
    and "a1 * (b2 * n3 - b3 * n2) - a2 * (b1 * n3 - b3 * n1) + a3 * (b1 * n2 - b2 * n1) \<noteq> 0"
  shows "u1 = 0 \<and> u2 = 0 \<and> u3 = 0"
proof -
  define D where "D = a1 * (b2 * n3 - b3 * n2) - a2 * (b1 * n3 - b3 * n1) + a3 * (b1 * n2 - b2 * n1)"
  have "D * u1 = (a1 * u1 + a2 * u2 + a3 * u3) * (b2 * n3 - b3 * n2)
               - (b1 * u1 + b2 * u2 + b3 * u3) * (a2 * n3 - a3 * n2)
               + (n1 * u1 + n2 * u2 + n3 * u3) * (a2 * b3 - a3 * b2)"
    unfolding D_def by (simp add: algebra_simps)
  then have 1: "D * u1 = 0" using assms(1-3) by simp
  have "D * u2 = - (a1 * u1 + a2 * u2 + a3 * u3) * (b1 * n3 - b3 * n1)
               + (b1 * u1 + b2 * u2 + b3 * u3) * (a1 * n3 - a3 * n1)
               - (n1 * u1 + n2 * u2 + n3 * u3) * (a1 * b3 - a3 * b1)"
    unfolding D_def by (simp add: algebra_simps)
  then have 2: "D * u2 = 0" using assms(1-3) by simp
  have "D * u3 = (a1 * u1 + a2 * u2 + a3 * u3) * (b1 * n2 - b2 * n1)
               - (b1 * u1 + b2 * u2 + b3 * u3) * (a1 * n2 - a2 * n1)
               + (n1 * u1 + n2 * u2 + n3 * u3) * (a1 * b2 - a2 * b1)"
    unfolding D_def by (simp add: algebra_simps)
  then have 3: "D * u3 = 0" using assms(1-3) by simp
  from assms(4) have "D \<noteq> 0" unfolding D_def .
  with 1 2 3 show ?thesis by simp
qed


lemma frame_complete:
  assumes "dot a a = 1" "dot b b = 1" "dot a b = 0" "dot a n = 0" "dot b n = 0"
    and "dot n n \<noteq> 0" and "dot n w = 0"
  shows "vx a * dot a w + vx b * dot b w = vx w \<and>
         vy a * dot a w + vy b * dot b w = vy w \<and>
         vz a * dot a w + vz b * dot b w = vz w"
proof -
  define u1 where "u1 = vx w - vx a * dot a w - vx b * dot b w"
  define u2 where "u2 = vy w - vy a * dot a w - vy b * dot b w"
  define u3 where "u3 = vz w - vz a * dot a w - vz b * dot b w"
  have "vx a * u1 + vy a * u2 + vz a * u3 = dot a w - dot a a * dot a w - dot a b * dot b w"
    unfolding u1_def u2_def u3_def dot_def by (simp add: algebra_simps)
  then have ua: "vx a * u1 + vy a * u2 + vz a * u3 = 0"
    using assms(1,3) by simp
  have "vx b * u1 + vy b * u2 + vz b * u3 = dot b w - dot a b * dot a w - dot b b * dot b w"
    unfolding u1_def u2_def u3_def dot_def by (simp add: algebra_simps)
  then have ub: "vx b * u1 + vy b * u2 + vz b * u3 = 0"
    using assms(2,3) by simp
  have "vx n * u1 + vy n * u2 + vz n * u3 = dot n w - dot a n * dot a w - dot b n * dot b w"
    unfolding u1_def u2_def u3_def dot_def by (simp add: algebra_simps)
  then have un: "vx n * u1 + vy n * u2 + vz n * u3 = 0"
    using assms(4,5,7) by simp
  have "(vx a * (vy b * vz n - vz b * vy n) - vy a * (vx b * vz n - vz b * vx n)
         + vz a * (vx b * vy n - vy b * vx n))\<^sup>2 = vx n * vx n + vy n * vy n + vz n * vz n"
    using assms(1-5) unfolding dot_def by (rule frame_det_square)
  with assms(6) have "vx a * (vy b * vz n - vz b * vy n) - vy a * (vx b * vz n - vz b * vx n)
         + vz a * (vx b * vy n - vy b * vx n) \<noteq> 0"
    unfolding dot_def by auto
  from frame_kernel [OF ua ub un this] show ?thesis
    unfolding u1_def u2_def u3_def by simp
qed

lemma roundtrip_on_frame:
  assumes "orthonormal_basis plane" and "dot (plane_normal plane) (plane_normal plane) \<noteq> 0"
    and "px plane * (vx v - vx origin) + py plane * (vy v - vy origin)
         + pz plane * (vz v - vz origin) = 0"
  shows "to_3D plane (to_2D plane v origin) origin = v"
proof -
  define w where "w = \<lparr>vx = vx v - vx origin, vy = vy v - vy origin, vz = vz v - vz origin\<rparr>"
  have "dot (plane_normal plane) w = 0"
    using assms(3) by (simp add: dot_def plane_normal_def w_def)
  with assms(1,2)
  have "vx (pa plane) * dot (pa plane) w + vx (pb plane) * dot (pb plane) w = vx w \<and>
        vy (pa plane) * dot (pa plane) w + vy (pb plane) * dot (pb plane) w = vy w \<and>
        vz (pa plane) * dot (pa plane) w + vz (pb plane) * dot (pb plane) w = vz w"
    unfolding orthonormal_basis_def by (intro frame_complete) simp_all
  then show ?thesis
    by (simp add: to_3D_def to_2D_def Let_def w_def add.assoc)
qed


lemma dot_self_nonneg: "0 \<le> dot v v"
  by (simp add: dot_def)

lemma dot_normalize_left: "dot (normalize_vec v) w = dot v w / sqrt (dot v v)"
  by (simp add: normalize_vec_def dot_def Let_def add_divide_distrib)

lemma dot_normalize_right: "dot w (normalize_vec v) = dot w v / sqrt (dot v v)"
  by (simp add: normalize_vec_def dot_def Let_def add_divide_distrib)

lemma normalize_unit:
  assumes "dot v v \<noteq> 0"
  shows "dot (normalize_vec v) (normalize_vec v) = 1"
proof -
  have "dot (normalize_vec v) (normalize_vec v) = dot v v / (sqrt (dot v v) * sqrt (dot v v))"
    by (simp add: dot_normalize_left dot_normalize_right)
  also have "sqrt (dot v v) * sqrt (dot v v) = dot v v"
    using dot_self_nonneg [of v] by simp
  finally show ?thesis using assms by simp
qed

lemma dot_basis_b_raw:
  "dot c (basis_b_raw x y z) =
     dot c \<lparr>vx = 0, vy = z, vz = - y\<rparr>
     - dot c (basis_a x y) * dot (basis_a x y) \<lparr>vx = 0, vy = z, vz = - y\<rparr>"
  by (simp add: basis_b_raw_def Let_def dot_def algebra_simps)

lemma dot_basis_b_raw_left:
  "dot (basis_b_raw x y z) c =
     dot \<lparr>vx = 0, vy = z, vz = - y\<rparr> c
     - dot (basis_a x y) c * dot (basis_a x y) \<lparr>vx = 0, vy = z, vz = - y\<rparr>"
  by (simp add: basis_b_raw_def Let_def dot_def algebra_simps)

lemma basis_a_unit:
  assumes "x \<noteq> 0 \<or> y \<noteq> 0"
  shows "dot (basis_a x y) (basis_a x y) = 1"
proof -
  have "y * y + x * x \<noteq> 0"
    using assms sum_squares_eq_zero_iff [of y x] by auto
  then show ?thesis
    unfolding basis_a_def by (intro normalize_unit) (simp add: dot_def)
qed

lemma basis_a_normal: "dot (basis_a x y) \<lparr>vx = x, vy = y, vz = z\<rparr> = 0"
  by (simp add: basis_a_def dot_normalize_left) (simp add: dot_def)

lemma basis_b_raw_nonzero:
  assumes "y \<noteq> 0"
  shows "dot (basis_b_raw x y z) (basis_b_raw x y z) \<noteq> 0"
proof -
  have "vz (basis_b_raw x y z) = - y"
    by (simp add: basis_b_raw_def Let_def basis_a_def normalize_vec_def)
  then have "dot (basis_b_raw x y z) (basis_b_raw x y z)
       = vx (basis_b_raw x y z) * vx (basis_b_raw x y z)
         + vy (basis_b_raw x y z) * vy (basis_b_raw x y z) + y * y"
    by (simp add: dot_def)
  moreover have "0 < y * y" using assms not_real_square_gt_zero [of y] by blast
  moreover have "0 \<le> vx (basis_b_raw x y z) * vx (basis_b_raw x y z)"
    and "0 \<le> vy (basis_b_raw x y z) * vy (basis_b_raw x y z)" by simp_all
  ultimately show ?thesis by linarith
qed

lemma general_basis_orthonormal:
  assumes "y \<noteq> 0"
  shows "dot (basis_a x y) (basis_a x y) = 1"
    and "dot (normalize_vec (basis_b_raw x y z)) (normalize_vec (basis_b_raw x y z)) = 1"
    and "dot (basis_a x y) (normalize_vec (basis_b_raw x y z)) = 0"
    and "dot (basis_a x y) \<lparr>vx = x, vy = y, vz = z\<rparr> = 0"
    and "dot (normalize_vec (basis_b_raw x y z)) \<lparr>vx = x, vy = y, vz = z\<rparr> = 0"
proof -
  show a: "dot (basis_a x y) (basis_a x y) = 1"
    using assms by (simp add: basis_a_unit)
  show "dot (normalize_vec (basis_b_raw x y z)) (normalize_vec (basis_b_raw x y z)) = 1"
    using assms by (intro normalize_unit basis_b_raw_nonzero)
  show "dot (basis_a x y) (normalize_vec (basis_b_raw x y z)) = 0"
    by (simp add: dot_normalize_right dot_basis_b_raw a)
  show an: "dot (basis_a x y) \<lparr>vx = x, vy = y, vz = z\<rparr> = 0"
    by (rule basis_a_normal)
  have "dot \<lparr>vx = 0, vy = z, vz = - y\<rparr> \<lparr>vx = x, vy = y, vz = z\<rparr> = 0"
    by (simp add: dot_def)
  then show "dot (normalize_vec (basis_b_raw x y z)) \<lparr>vx = x, vy = y, vz = z\<rparr> = 0"
    by (simp add: dot_normalize_left dot_basis_b_raw_left an)
qed

lemma new_stl_plane_orthonormal:
  assumes "y \<noteq> 0 \<or> x = 0 \<or> z = 0"
  shows "orthonormal_basis (new_stl_plane x y z d)"
proof (cases "x = 0 \<and> y = 0 \<or> y = 0 \<and> z = 0 \<or> x = 0 \<and> z = 0")
  case True
  then show ?thesis
    by (auto simp: orthonormal_basis_def new_stl_plane_def plane_normal_def dot_def)
next
  case False
  with assms have "y \<noteq> 0" by auto
  from False have "new_stl_plane x y z d =
      \<lparr>px = x, py = y, pz = z, pd = d, pa = basis_a x y, pb = normalize_vec (basis_b_raw x y z)\<rparr>"
    by (auto simp: new_stl_plane_def)
  then show ?thesis
    using general_basis_orthonormal [OF \<open>y \<noteq> 0\<close>]
    by (simp add: orthonormal_basis_def plane_normal_def)
qed

text \<open>
  C4. The claim is that the basis stored by the constructor is orthonormal and orthogonal to
  the normal for every nonzero normal. The constructor does not achieve it when \<open>y = 0\<close>
  and \<open>x\<close>, \<open>z\<close> are not zero. For the normal \<open>(1, 0, 1)\<close> the general branch is taken,
  \<open>a\<close> is \<open>(0, -1, 0)\<close>, and the vector \<open>(0, z, -y) = (0, 1, 0)\<close> minus its projection on
  \<open>a\<close> is the zero vector: \<^verbatim>\<open>normalize\<close> divides it by its length \<open>0\<close>, so the stored \<open>b\<close>
  is not a vector of length one (in the program its coordinates are NaN).
\<close>

theorem basis_degenerate_at_1_0_1:
  "basis_a 1 0 = \<lparr>vx = 0, vy = - 1, vz = 0\<rparr> \<and>
   basis_b_raw 1 0 1 = \<lparr>vx = 0, vy = 0, vz = 0\<rparr> \<and>
   pb (new_stl_plane 1 0 1 0) = normalize_vec \<lparr>vx = 0, vy = 0, vz = 0\<rparr> \<and>
   dot (pb (new_stl_plane 1 0 1 0)) (pb (new_stl_plane 1 0 1 0)) \<noteq> 1 \<and>
   \<not> orthonormal_basis (new_stl_plane 1 0 1 0)"
proof -
  have a: "basis_a 1 0 = \<lparr>vx = 0, vy = - 1, vz = 0\<rparr>"
    by (simp add: basis_a_def normalize_vec_def)
  have b: "basis_b_raw 1 0 1 = \<lparr>vx = 0, vy = 0, vz = 0\<rparr>"
    by (simp add: basis_b_raw_def a dot_def)
  have pb: "pb (new_stl_plane 1 0 1 0) = normalize_vec \<lparr>vx = 0, vy = 0, vz = 0\<rparr>"
    by (simp add: new_stl_plane_def b)
  have "dot (pb (new_stl_plane 1 0 1 0)) (pb (new_stl_plane 1 0 1 0)) = 0"
    by (simp add: pb dot_normalize_left)  (simp add: dot_def)
  with a b pb show ?thesis
    by (simp add: orthonormal_basis_def)
qed

text \<open>
  C6. The claim is that \<open>to_3D\<close> after \<open>to_2D\<close> gives back every vertex, for every plane and
  origin. \<open>to_2D\<close> drops the component of \<open>v - origin\<close> along the normal, so this fails as
  soon as \<open>v\<close> and the origin are not at the same height over the plane. The instance below
  is the border edge that the simple cut of the facet \<open>(0,0,0), (1,0,1), (0,1,-1)\<close> by the
  plane \<open>z = 0\<close> inserts: its first end \<open>(1,0,1)\<close>, which \<^verbatim>\<open>main\<close> takes as the origin, is not
  on the plane, and its second end \<open>(1/2,1/2,0)\<close> comes back as \<open>(1/2,1/2,1)\<close>.
\<close>

theorem roundtrip_counterexample:
  "border (separate (example_facet (xyz 0 0 0) (xyz 1 0 1) (xyz 0 1 (- 1))) main_plane empty_cut)
     = [\<lparr>pair_x = xyz 1 0 1, pair_y = xyz (1 / 2) (1 / 2) 0\<rparr>] \<and>
   to_3D main_plane (to_2D main_plane (xyz (1 / 2) (1 / 2) 0) (xyz 1 0 1)) (xyz 1 0 1)
     = xyz (1 / 2) (1 / 2) 1 \<and>
   to_3D main_plane (to_2D main_plane (xyz (1 / 2) (1 / 2) 0) (xyz 1 0 1)) (xyz 1 0 1)
     \<noteq> xyz (1 / 2) (1 / 2) 0"
proof -
  have "border (separate (example_facet (xyz 0 0 0) (xyz 1 0 1) (xyz 0 1 (- 1))) main_plane empty_cut)
     = [\<lparr>pair_x = xyz 1 0 1, pair_y = xyz (1 / 2) (1 / 2) 0\<rparr>]"
    by (simp add: separate_def position_main_plane main_plane_simps vertex_def example_facet_def xyz_def
        empty_cut_def simple_cut_def intersection_def Let_def)
  then show ?thesis
    by (simp add: to_3D_def to_2D_def main_plane_simps xyz_def dot_def)
qed

text \<open>
  C6, as amended. For a plane built from a nonzero normal \<open>(x, y, z)\<close>, except when
  \<open>y = 0\<close> with \<open>x\<close> and \<open>z\<close> not zero, and for an origin and a vertex \<open>v\<close> such that
  \<open>v - origin\<close> is orthogonal to the normal (in particular when both are on the plane),
  \<open>to_3D\<close> after \<open>to_2D\<close> gives back \<open>v\<close>.
\<close>

theorem roundtrip_in_plane:
  assumes "x \<noteq> 0 \<or> y \<noteq> 0 \<or> z \<noteq> 0"
    and "y \<noteq> 0 \<or> x = 0 \<or> z = 0"
    and "x * (vx v - vx origin) + y * (vy v - vy origin) + z * (vz v - vz origin) = 0"
  shows "to_3D (new_stl_plane x y z d) (to_2D (new_stl_plane x y z d) v origin) origin = v"
proof (rule roundtrip_on_frame)
  show "orthonormal_basis (new_stl_plane x y z d)"
    using assms(2) by (rule new_stl_plane_orthonormal)
  have "x * x + y * y + z * z \<noteq> 0"
  proof
    assume eq: "x * x + y * y + z * z = 0"
    have "0 \<le> x * x" "0 \<le> y * y" "0 \<le> z * z" by simp_all
    with eq have "x * x = 0" "y * y = 0" "z * z = 0" by linarith+
    then show False using assms(1) by simp
  qed
  then show "dot (plane_normal (new_stl_plane x y z d)) (plane_normal (new_stl_plane x y z d)) \<noteq> 0"
    by (simp add: plane_normal_def dot_def new_stl_plane_normal)
  show "px (new_stl_plane x y z d) * (vx v - vx origin)
        + py (new_stl_plane x y z d) * (vy v - vy origin)
        + pz (new_stl_plane x y z d) * (vz v - vz origin) = 0"
    using assms(3) by (simp add: new_stl_plane_normal)
qed

theorem roundtrip_in_plane_witness:
  "to_3D (new_stl_plane 3 4 0 0) (to_2D (new_stl_plane 3 4 0 0) (xyz 4 (- 3) 5) (xyz 0 0 0)) (xyz 0 0 0)
     = xyz 4 (- 3) 5"
  using roundtrip_in_plane [of 3 4 0 "xyz 4 (- 3) 5" "xyz 0 0 0" 0]
  by (simp add: xyz_def)

subsection \<open>The facet splitter\<close>

lemma all_less_3: "(\<forall>i<3::nat. P i) \<longleftrightarrow> P 0 \<and> P 1 \<and> P 2"
  by (auto simp: numeral_3_eq_3 numeral_2_eq_2 less_Suc_eq)

lemma ex_less_3: "(\<exists>i<3::nat. P i) \<longleftrightarrow> P 0 \<or> P 1 \<or> P 2"
  by (auto simp: numeral_3_eq_3 numeral_2_eq_2 less_Suc_eq)

lemma less_3_cases: "i < (3::nat) \<Longrightarrow> i = 0 \<or> i = 1 \<or> i = 2"
  by arith

lemma first_index_None_iff: "first_index p pos i = None \<longleftrightarrow> p \<notin> set pos"
  by (induction pos arbitrary: i) auto

lemma first_index_on_exists:
  assumes "length (filter (\<lambda>p. p \<noteq> above \<and> p \<noteq> below) pos) = 1"
  shows "\<exists>i. first_index on pos 0 = Some i"
proof -
  from assms have "filter (\<lambda>p. p \<noteq> above \<and> p \<noteq> below) pos \<noteq> []"
    by auto
  then obtain p where p: "p \<in> set pos" and "p \<noteq> above \<and> p \<noteq> below"
    by (auto simp: filter_empty_conv)
  moreover have "q = on" if "q \<noteq> above \<and> q \<noteq> below" for q
    by (cases q) (use that in auto)
  ultimately have "p = on"
    by simp
  with p have "on \<in> set pos"
    by simp
  then show ?thesis
    using first_index_None_iff [of on pos 0] by auto
qed



lemma separate_all_above:
  "\<forall>i<3. position plane (vertex f i) = above \<Longrightarrow> separate f plane st = st\<lparr>upper := upper st @ [f]\<rparr>"
  by (simp add: all_less_3 separate_def vertex_def)

lemma separate_all_below:
  "\<forall>i<3. position plane (vertex f i) = below \<Longrightarrow> separate f plane st = st\<lparr>lower := lower st @ [f]\<rparr>"
  by (simp add: all_less_3 separate_def vertex_def)

lemma separate_all_on:
  "\<forall>i<3. position plane (vertex f i) = on \<Longrightarrow> separate f plane st = st"
  by (simp add: all_less_3 separate_def vertex_def)

lemma separate_on_and_two:
  assumes "i < 3" and "position plane (vertex f i) = on"
    and "position plane (vertex f ((i + 1) mod 3)) = s"
    and "position plane (vertex f ((i + 2) mod 3)) = s"
  shows "s = above \<Longrightarrow> separate f plane st = st\<lparr>upper := upper st @ [f]\<rparr>"
    and "s = below \<Longrightarrow> separate f plane st = st\<lparr>lower := lower st @ [f]\<rparr>"
proof -
  from assms(1) consider "i = 0" | "i = 1" | "i = 2" by arith
  then show "s = above \<Longrightarrow> separate f plane st = st\<lparr>upper := upper st @ [f]\<rparr>"
    using assms(2-4) by cases (simp_all add: separate_def vertex_def)
  from assms(1) consider "i = 0" | "i = 1" | "i = 2" by arith
  then show "s = below \<Longrightarrow> separate f plane st = st\<lparr>lower := lower st @ [f]\<rparr>"
    using assms(2-4) by cases (simp_all add: separate_def vertex_def)
qed

text \<open>
  C7. A triangle whose vertices lie on one side of the plane, all three strictly above (or
  below), or one on the plane and the two others strictly above (or below), is appended as
  it is to the upper (or lower) half; the other half and the border set stay as they were.
  A triangle with its three vertices on the plane is dropped: the state does not change.
\<close>

theorem separate_one_side:
  "((\<forall>i<3. position plane (vertex f i) = above) \<longrightarrow>
      separate f plane st = st\<lparr>upper := upper st @ [f]\<rparr>) \<and>
   ((\<forall>i<3. position plane (vertex f i) = below) \<longrightarrow>
      separate f plane st = st\<lparr>lower := lower st @ [f]\<rparr>) \<and>
   ((\<exists>i<3. position plane (vertex f i) = on \<and>
            position plane (vertex f ((i + 1) mod 3)) = above \<and>
            position plane (vertex f ((i + 2) mod 3)) = above) \<longrightarrow>
      separate f plane st = st\<lparr>upper := upper st @ [f]\<rparr>) \<and>
   ((\<exists>i<3. position plane (vertex f i) = on \<and>
            position plane (vertex f ((i + 1) mod 3)) = below \<and>
            position plane (vertex f ((i + 2) mod 3)) = below) \<longrightarrow>
      separate f plane st = st\<lparr>lower := lower st @ [f]\<rparr>) \<and>
   ((\<forall>i<3. position plane (vertex f i) = on) \<longrightarrow> separate f plane st = st)"
  using separate_all_above [of plane f st] separate_all_below [of plane f st]
    separate_all_on [of plane f st] separate_on_and_two [of _ plane f _ st]
  by blast


theorem separate_one_side_witness:
  "separate (example_facet (xyz 0 0 1) (xyz 1 0 1) (xyz 0 1 2)) main_plane empty_cut =
     empty_cut\<lparr>upper := [example_facet (xyz 0 0 1) (xyz 1 0 1) (xyz 0 1 2)]\<rparr> \<and>
   separate (example_facet (xyz 0 0 (- 1)) (xyz 1 0 (- 1)) (xyz 0 1 (- 2))) main_plane empty_cut =
     empty_cut\<lparr>lower := [example_facet (xyz 0 0 (- 1)) (xyz 1 0 (- 1)) (xyz 0 1 (- 2))]\<rparr> \<and>
   separate (example_facet (xyz 0 0 1) (xyz 1 0 0) (xyz 0 1 2)) main_plane empty_cut =
     empty_cut\<lparr>upper := [example_facet (xyz 0 0 1) (xyz 1 0 0) (xyz 0 1 2)]\<rparr> \<and>
   separate (example_facet (xyz 0 0 (- 1)) (xyz 1 0 (- 1)) (xyz 0 1 0)) main_plane empty_cut =
     empty_cut\<lparr>lower := [example_facet (xyz 0 0 (- 1)) (xyz 1 0 (- 1)) (xyz 0 1 0)]\<rparr> \<and>
   separate (example_facet (xyz 0 0 0) (xyz 1 0 0) (xyz 0 1 0)) main_plane empty_cut = empty_cut"
  using separate_one_side
        [where plane = main_plane
          and f = "example_facet (xyz 0 0 1) (xyz 1 0 1) (xyz 0 1 2)"
          and st = empty_cut]
    separate_one_side
          [where plane = main_plane
            and f = "example_facet (xyz 0 0 (- 1)) (xyz 1 0 (- 1)) (xyz 0 1 (- 2))"
            and st = empty_cut]
    separate_one_side
          [where plane = main_plane
            and f = "example_facet (xyz 0 0 1) (xyz 1 0 0) (xyz 0 1 2)"
            and st = empty_cut]
    separate_one_side
          [where plane = main_plane
            and f = "example_facet (xyz 0 0 (- 1)) (xyz 1 0 (- 1)) (xyz 0 1 0)"
            and st = empty_cut]
    separate_one_side
          [where plane = main_plane
            and f = "example_facet (xyz 0 0 0) (xyz 1 0 0) (xyz 0 1 0)"
            and st = empty_cut]
  by (simp add: all_less_3 ex_less_3 position_main_plane main_plane_simps vertex_def example_facet_def
      xyz_def empty_cut_def)









subsection \<open>The border stitcher\<close>

lemma edge_length_manhattan: "edge_length x y = manhattan_length x y"
  by (simp add: edge_length_def manhattan_length_def ABS_def abs_if)

lemma STL_MIN_min: "STL_MIN A B = min A B"
  by (simp add: STL_MIN_def min_def)

lemma fst_project_border:
  "fst (project_border plane origin bord (border2d, t)) =
     border2d @ map (\<lambda>i. \<lparr>pair_x = to_2D plane (pair_x i) origin,
                            pair_y = to_2D plane (pair_y i) origin\<rparr>) bord"
  by (induction bord arbitrary: border2d t) (simp_all add: Let_def)

lemma snd_project_border_Some:
  "snd (project_border plane origin bord (border2d, Some t)) =
     Some (Min (insert t ((\<lambda>i. manhattan_length (to_2D plane (pair_x i) origin)
                                   (to_2D plane (pair_y i) origin)) ` set bord)))"
proof (induction bord arbitrary: border2d t)
  case Nil
  then show ?case by simp
next
  case (Cons i rest)
  let ?len = "\<lambda>i. manhattan_length (to_2D plane (pair_x i) origin) (to_2D plane (pair_y i) origin)"
  have "Min (insert (min t (?len i)) (?len ` set rest)) = Min (insert t (insert (?len i) (?len ` set rest)))"
  proof (cases "rest = []")
    case True
    then show ?thesis by simp
  next
    case False
    then have ne: "?len ` set rest \<noteq> {}" by simp
    have fin: "finite (?len ` set rest)" by simp
    show ?thesis
      by (simp add: Min_insert [OF fin ne] Min_insert [of "insert (?len i) (?len ` set rest)"] min.assoc)
  qed
  then show ?case
    by (simp add: Let_def Cons.IH edge_length_manhattan STL_MIN_min)
qed

lemma snd_project_border_None:
  "bord \<noteq> [] \<Longrightarrow>
   snd (project_border plane origin bord (border2d, None)) =
     Some (min_length manhattan_length plane origin bord)"
  by (cases bord) (simp_all add: Let_def snd_project_border_Some edge_length_manhattan min_length_def)

lemma project_border_nonempty:
  assumes "bord \<noteq> []"
  shows "project_border plane origin bord ([], None) =
     (map (\<lambda>i. \<lparr>pair_x = to_2D plane (pair_x i) origin,
                  pair_y = to_2D plane (pair_y i) origin\<rparr>) bord,
      Some (min_length manhattan_length plane origin bord))"
  using fst_project_border [of plane origin bord "[]" None]
    snd_project_border_None [OF assms, of plane origin "[]"]
  by (simp add: prod_eq_iff)

lemma stitch_nonempty:
  assumes "bord \<noteq> []"
  shows "\<exists>s. stitch plane bord = Inr s \<and> the_origin s = pair_x (hd bord) \<and>
             the_tolerance s = min_length manhattan_length plane (pair_x (hd bord)) bord / 4"
proof -
  from assms obtain first rest where bord: "bord = first # rest"
    by (cases bord) auto
  obtain polyline border2d' where loop:
    "stitch_loop (min_length manhattan_length plane (pair_x first) bord / 4)
       [to_2D plane (pair_x first) (pair_x first), to_2D plane (pair_y first) (pair_x first)]
       (map (\<lambda>i. \<lparr>pair_x = to_2D plane (pair_x i) (pair_x first),
                    pair_y = to_2D plane (pair_y i) (pair_x first)\<rparr>) rest) = (polyline, border2d')"
    by (cases "stitch_loop (min_length manhattan_length plane (pair_x first) bord / 4)
       [to_2D plane (pair_x first) (pair_x first), to_2D plane (pair_y first) (pair_x first)]
       (map (\<lambda>i. \<lparr>pair_x = to_2D plane (pair_x i) (pair_x first),
                    pair_y = to_2D plane (pair_y i) (pair_x first)\<rparr>) rest)") auto
  have "project_border plane (pair_x first) bord ([], None) =
     (map (\<lambda>i. \<lparr>pair_x = to_2D plane (pair_x i) (pair_x first),
                  pair_y = to_2D plane (pair_y i) (pair_x first)\<rparr>) bord,
      Some (min_length manhattan_length plane (pair_x first) bord))"
    using assms by (rule project_border_nonempty)
  with loop show ?thesis
    unfolding stitch_def bord [symmetric]
    by (simp add: bord begin_deref_def front_def Let_def del: project_border.simps)
qed







lemma separate_one_side_border:
  assumes "(\<forall>i<3. position plane (vertex f i) = above) \<or>
           (\<forall>i<3. position plane (vertex f i) = below)"
  shows "border (separate f plane st) = border st"
  using assms separate_all_above [of plane f st] separate_all_below [of plane f st] by auto

lemma separate_all_one_side_border:
  assumes "\<forall>f\<in>set facets. (\<forall>i<3. position plane (vertex f i) = above) \<or>
                            (\<forall>i<3. position plane (vertex f i) = below)"
  shows "border (separate_all facets plane st) = border st"
  using assms unfolding separate_all_def
proof (induction facets arbitrary: st)
  case Nil
  then show ?case by simp
next
  case (Cons f facets)
  then have "border (separate f plane st) = border st"
    by (simp add: separate_one_side_border)
  with Cons show ?case by simp
qed

lemma stitch_empty: "stitch plane [] = Inl Empty_border"
  by (simp add: stitch_def begin_deref_def)

lemma stitch_defined_iff: "(\<exists>s. stitch plane bord = Inr s) \<longleftrightarrow> bord \<noteq> []"
proof
  assume "\<exists>s. stitch plane bord = Inr s"
  then show "bord \<noteq> []" by (auto simp: stitch_empty)
next
  assume "bord \<noteq> []"
  from stitch_nonempty [OF this, of plane] show "\<exists>s. stitch plane bord = Inr s" by blast
qed

text \<open>
  C8. When every input triangle has its three vertices strictly above the plane, or its
  three vertices strictly below, the border set is empty after all facets are separated.
  Then reading the first border edge for the origin has no value, and neither has the
  front of the list of projected edges; the stitching stage stops there with an error
  (and so does the whole cut). The stitching stage yields a result exactly when the border
  set is not empty.
\<close>

theorem no_border_no_stitching:
  assumes "\<forall>f\<in>set facets. (\<forall>i<3. position plane (vertex f i) = above) \<or>
                            (\<forall>i<3. position plane (vertex f i) = below)"
  shows "border (separate_all facets plane empty_cut) = [] \<and>
         begin_deref (border (separate_all facets plane empty_cut)) = None \<and>
         front (fst (project_border plane origin
                       (border (separate_all facets plane empty_cut)) ([], None))) = None \<and>
         stitch plane (border (separate_all facets plane empty_cut)) = Inl Empty_border \<and>
         (plane = main_plane \<longrightarrow> cut_mesh cdt uninit facets = Inl Empty_border) \<and>
         (\<forall>bord. (\<exists>s. stitch plane bord = Inr s) \<longleftrightarrow> bord \<noteq> [])"
proof -
  have empty: "border (separate_all facets plane empty_cut) = []"
    using separate_all_one_side_border [OF assms, of empty_cut] by (simp add: empty_cut_def)
  then have "plane = main_plane \<longrightarrow> cut_mesh cdt uninit facets = Inl Empty_border"
    by (auto simp: cut_mesh_def Let_def stitch_empty)
  with empty show ?thesis
    by (simp add: begin_deref_def front_def stitch_empty stitch_defined_iff)
qed

theorem no_border_no_stitching_witness:
  "border (separate_all [example_facet (xyz 0 0 1) (xyz 1 0 1) (xyz 0 1 2),
                         example_facet (xyz 0 0 (- 1)) (xyz 1 0 (- 1)) (xyz 0 1 (- 2))]
             main_plane empty_cut) = [] \<and>
   cut_mesh (\<lambda>polygon. []) (xyz 0 0 0, example_facet (xyz 0 0 0) (xyz 0 0 0) (xyz 0 0 0))
       [example_facet (xyz 0 0 1) (xyz 1 0 1) (xyz 0 1 2),
        example_facet (xyz 0 0 (- 1)) (xyz 1 0 (- 1)) (xyz 0 1 (- 2))] = Inl Empty_border"
  using no_border_no_stitching
          [where facets = "[example_facet (xyz 0 0 1) (xyz 1 0 1) (xyz 0 1 2),
                            example_facet (xyz 0 0 (- 1)) (xyz 1 0 (- 1)) (xyz 0 1 (- 2))]"
             and plane = main_plane and cdt = "\<lambda>polygon. []"
             and uninit = "(xyz 0 0 0, example_facet (xyz 0 0 0) (xyz 0 0 0) (xyz 0 0 0))"]
  by (simp add: all_less_3 position_main_plane main_plane_simps vertex_def example_facet_def xyz_def)

lemma scan_Some:
  "scan tolerance polyline border2d = Some (polyline', border2d') \<Longrightarrow>
     length border2d' + 1 = length border2d \<and> length polyline' = length polyline + 1"
  by (induction border2d arbitrary: polyline' border2d')
     (auto split: if_splits option.splits)

lemma stitch_loop_lengths:
  "stitch_loop tolerance polyline border2d = (p, r) \<Longrightarrow>
     length p + length r = length polyline + length border2d \<and> length r \<le> length border2d \<and>
     scan tolerance p r = None"
proof (induction tolerance polyline border2d rule: stitch_loop.induct)
  case (1 tolerance polyline border2d)
  show ?case
  proof (cases "scan tolerance polyline border2d")
    case None
    with "1.prems" show ?thesis by simp
  next
    case (Some a)
    obtain polyline' border2d' where a: "a = (polyline', border2d')" by (cases a)
    from "1.prems" Some a have "stitch_loop tolerance polyline' border2d' = (p, r)" by simp
    with "1.IH" [OF Some a [symmetric]]
    have "length p + length r = length polyline' + length border2d' \<and>
          length r \<le> length border2d' \<and> scan tolerance p r = None"
      by simp
    moreover from Some a scan_Some [of tolerance polyline border2d polyline' border2d']
    have "length border2d' + 1 = length border2d \<and> length polyline' = length polyline + 1"
      by simp
    ultimately show ?thesis by simp
  qed
qed

text \<open>
  C10. The matching loop of the stitcher terminates: \<open>stitch_loop\<close> is a total function,
  defined by recursion on the number of edges left. One iteration either finds no edge
  and the loop ends with the polyline and the edges as they are, or it erases exactly one
  edge and pushes exactly one vertex. At the end no edge matches, the polyline has grown
  by the number of erased edges, which is at most the number of edges, and a polyline
  seeded with two vertices has at most two more vertices than there were edges left.
\<close>

theorem stitch_loop_terminates:
  "(case scan tolerance polyline border2d of
      None \<Rightarrow> stitch_loop tolerance polyline border2d = (polyline, border2d)
    | Some (polyline', border2d') \<Rightarrow>
        length border2d' + 1 = length border2d \<and> length polyline' = length polyline + 1 \<and>
        stitch_loop tolerance polyline border2d = stitch_loop tolerance polyline' border2d') \<and>
   (case stitch_loop tolerance polyline border2d of
      (p, r) \<Rightarrow> scan tolerance p r = None \<and> length r \<le> length border2d \<and>
                length p = length polyline + (length border2d - length r)) \<and>
   length (fst (stitch_loop tolerance [x, y] border2d)) \<le> 2 + length border2d"
proof -
  have step: "case scan tolerance polyline border2d of
      None \<Rightarrow> stitch_loop tolerance polyline border2d = (polyline, border2d)
    | Some (polyline', border2d') \<Rightarrow>
        length border2d' + 1 = length border2d \<and> length polyline' = length polyline + 1 \<and>
        stitch_loop tolerance polyline border2d = stitch_loop tolerance polyline' border2d'"
    using scan_Some [of tolerance polyline border2d]
    by (auto split: option.splits)
  have whole: "scan tolerance p r = None \<and> length r \<le> length bs \<and>
      length p = length po + (length bs - length r)"
    if "stitch_loop tolerance po bs = (p, r)" for po bs p r
    using stitch_loop_lengths [OF that] by auto
  have "length (fst (stitch_loop tolerance [x, y] border2d)) \<le> 2 + length border2d"
    using whole [of "[x, y]" border2d] by (cases "stitch_loop tolerance [x, y] border2d") auto
  with step whole [of polyline border2d] show ?thesis
    by (cases "stitch_loop tolerance polyline border2d") auto
qed

subsection \<open>The cap builder\<close>

lemma to_3D_ignores_z: "to_3D plane (v\<lparr>vx := a, vy := b\<rparr>) origin = to_3D plane \<lparr>vx = a, vy = b, vz = 0\<rparr> origin"
  by (simp add: to_3D_def)

lemma vertex_full_update: "(v::stl_vertex)\<lparr>vx := a, vy := b, vz := c\<rparr> = \<lparr>vx = a, vy = b, vz = c\<rparr>"
  by (cases v) simp

lemma cap_triangle_eq:
  "cap_triangle plane origin (uv, uf) st t =
     st\<lparr>lower := lower st @ [lower_cap plane origin (extra0 uf, extra1 uf) t],
        upper := upper st @ [upper_cap plane origin (extra0 uf, extra1 uf) t]\<rparr>"
proof -
  obtain p0 p1 p2 where t: "t = (p0, p1, p2)" by (cases t)
  have loop: "foldl (cap_vertex plane origin t) (uv, uf) [0, 1, 2] =
      (to_3D plane (point_vertex p2) origin,
       uf\<lparr>vertex0 := to_3D plane (point_vertex p0) origin,
          vertex1 := to_3D plane (point_vertex p1) origin,
          vertex2 := to_3D plane (point_vertex p2) origin\<rparr>)"
    by (simp add: cap_vertex_def GetPoint_def set_vertex_def t Let_def to_3D_ignores_z point_vertex_def)
  show ?thesis
    unfolding cap_triangle_def loop
    by (cases uf) (simp add: lower_cap_def upper_cap_def t Let_def vertex_full_update)
qed

lemma cap_builder_eq:
  "cap_builder plane origin (uv, uf) triangles st =
     st\<lparr>lower := lower st @ map (lower_cap plane origin (extra0 uf, extra1 uf)) triangles,
        upper := upper st @ map (upper_cap plane origin (extra0 uf, extra1 uf)) triangles\<rparr>"
  unfolding cap_builder_def
proof (induction triangles arbitrary: st)
  case Nil
  then show ?case by simp
next
  case (Cons t triangles)
  show ?case
    by (simp only: foldl_Cons Cons.IH) (simp add: cap_triangle_eq)
qed

text \<open>
  C9. For every triangle that the triangulation returns, the cap builder appends two
  facets: to the lower half the facet of the three corners mapped by \<open>to_3D\<close>, with the
  plane normal; to the upper half the facet of the same corners with the second and the
  third exchanged, with the negated normal. Both halves grow by the number of triangles.
\<close>

theorem cap_builder_facets:
  "cap_triangle plane origin (uv, uf) st (p0, p1, p2) =
     st\<lparr>lower := lower st @
            [\<lparr>normal = \<lparr>vx = px plane, vy = py plane, vz = pz plane\<rparr>,
              vertex0 = to_3D plane (point_vertex p0) origin,
              vertex1 = to_3D plane (point_vertex p1) origin,
              vertex2 = to_3D plane (point_vertex p2) origin,
              extra0 = extra0 uf, extra1 = extra1 uf\<rparr>],
        upper := upper st @
            [\<lparr>normal = \<lparr>vx = - px plane, vy = - py plane, vz = - pz plane\<rparr>,
              vertex0 = to_3D plane (point_vertex p0) origin,
              vertex1 = to_3D plane (point_vertex p2) origin,
              vertex2 = to_3D plane (point_vertex p1) origin,
              extra0 = extra0 uf, extra1 = extra1 uf\<rparr>]\<rparr> \<and>
   cap_builder plane origin (uv, uf) triangles st =
     st\<lparr>lower := lower st @ map (lower_cap plane origin (extra0 uf, extra1 uf)) triangles,
        upper := upper st @ map (upper_cap plane origin (extra0 uf, extra1 uf)) triangles\<rparr> \<and>
   length (lower (cap_builder plane origin (uv, uf) triangles st)) = length (lower st) + length triangles \<and>
   length (upper (cap_builder plane origin (uv, uf) triangles st)) = length (upper st) + length triangles"
  by (simp add: cap_builder_eq cap_triangle_eq lower_cap_def upper_cap_def)

end
